theory Spec2Isabelle
  imports Complex_Main
begin

section \<open>Python values\<close>

text \<open>
  The payloads are \<^verbatim>\<open>Dict[str, Any]\<close> and the attributes of the configuration are
  untyped, so the fields of a challenge and of a game hold arbitrary values: the ones a
  JSON or YAML document can carry. A float is represented by its exact value (Python
  compares an int and a float exactly), with the two infinities; NaN is outside the
  universe. A string is a sequence of characters; a dict has string keys, kept as an
  association list read with \<open>map_of\<close>.
\<close>

datatype xrat = NInf | Fin rat | PInf

datatype pyval =
    VNone
  | VBool bool
  | VInt int
  | VFloat xrat
  | VStr string
  | VList "pyval list"
  | VDict "(string \<times> pyval) list"

text \<open>The exceptions the built-in operations used by the source can raise.\<close>

datatype exn = TypeError | KeyError | AttributeError

text \<open>\<^verbatim>\<open>math.inf\<close>\<close>

definition math_inf :: pyval where
  "math_inf = VFloat PInf"

fun xle :: "xrat \<Rightarrow> xrat \<Rightarrow> bool" where
  "xle NInf y = True"
| "xle (Fin a) NInf = False"
| "xle (Fin a) (Fin b) = (a \<le> b)"
| "xle (Fin a) PInf = True"
| "xle PInf y = (y = PInf)"

definition xlt :: "xrat \<Rightarrow> xrat \<Rightarrow> bool" where
  "xlt x y = (xle x y \<and> x \<noteq> y)"

text \<open>The numeric value of a number (bool is a subclass of int); None for the rest.\<close>

fun num_of :: "pyval \<Rightarrow> xrat option" where
  "num_of (VBool b) = Some (Fin (if b then 1 else 0))"
| "num_of (VInt i) = Some (Fin (of_int i))"
| "num_of (VFloat x) = Some x"
| "num_of v = None"

text \<open>Truth value testing, as \<^verbatim>\<open>or\<close>, \<^verbatim>\<open>not\<close> and the conditional expression apply it.\<close>

fun truthy :: "pyval \<Rightarrow> bool" where
  "truthy VNone = False"
| "truthy (VBool b) = b"
| "truthy (VInt i) = (i \<noteq> 0)"
| "truthy (VFloat x) = (x \<noteq> Fin 0)"
| "truthy (VStr s) = (s \<noteq> [])"
| "truthy (VList xs) = (xs \<noteq> [])"
| "truthy (VDict d) = (d \<noteq> [])"

text \<open>\<^verbatim>\<open>a or b\<close> on two values that are already evaluated.\<close>

definition py_or :: "pyval \<Rightarrow> pyval \<Rightarrow> pyval" where
  "py_or a b = (if truthy a then a else b)"

text \<open>
  \<^verbatim>\<open>a == b\<close>: numbers by value, strings by content, lists element by element, dicts
  by their entries; values of different kinds are unequal. It never raises.
\<close>

fun py_eq :: "pyval \<Rightarrow> pyval \<Rightarrow> bool"
  and py_eq_list :: "pyval list \<Rightarrow> pyval list \<Rightarrow> bool"
  and dict_sub :: "(string \<times> pyval) list \<Rightarrow> (string \<times> pyval) list \<Rightarrow> bool"
  and dict_has :: "string \<Rightarrow> pyval \<Rightarrow> (string \<times> pyval) list \<Rightarrow> bool" where
  "py_eq VNone b = (b = VNone)"
| "py_eq (VBool p) b = (num_of b = Some (Fin (if p then 1 else 0)))"
| "py_eq (VInt i) b = (num_of b = Some (Fin (of_int i)))"
| "py_eq (VFloat x) b = (num_of b = Some x)"
| "py_eq (VStr s) b = (b = VStr s)"
| "py_eq (VList xs) b = (case b of VList ys \<Rightarrow> py_eq_list xs ys | _ \<Rightarrow> False)"
| "py_eq (VDict d) b =
     (case b of VDict e \<Rightarrow> length d = length e \<and> dict_sub d e | _ \<Rightarrow> False)"
| "py_eq_list [] ys = (ys = [])"
| "py_eq_list (x # xs) [] = False"
| "py_eq_list (x # xs) (y # ys) = (py_eq x y \<and> py_eq_list xs ys)"
| "dict_sub [] e = True"
| "dict_sub ((k, v) # d) e = (dict_has k v e \<and> dict_sub d e)"
| "dict_has k v [] = False"
| "dict_has k v ((k', v') # e) = (if k = k' then py_eq v v' else dict_has k v e)"

text \<open>Strings are ordered lexicographically by code point.\<close>

fun str_le :: "string \<Rightarrow> string \<Rightarrow> bool" where
  "str_le [] t = True"
| "str_le (c # s) [] = False"
| "str_le (c # s) (d # t) =
     ((of_char c :: nat) < of_char d \<or> (c = d \<and> str_le s t))"

text \<open>
  \<^verbatim>\<open>a <= b\<close> (\<open>strict = False\<close>) and \<^verbatim>\<open>a < b\<close> (\<open>strict = True\<close>): defined between
  two numbers, two strings and two lists (decided by the first pair of unequal
  elements, else by the lengths); every other pair raises TypeError.
\<close>

fun py_ord :: "bool \<Rightarrow> pyval \<Rightarrow> pyval \<Rightarrow> exn + bool"
  and list_ord :: "bool \<Rightarrow> pyval list \<Rightarrow> pyval list \<Rightarrow> exn + bool" where
  "py_ord strict (VStr s) b =
     (case b of VStr t \<Rightarrow> Inr (str_le s t \<and> \<not> (strict \<and> s = t)) | _ \<Rightarrow> Inl TypeError)"
| "py_ord strict (VList xs) b =
     (case b of VList ys \<Rightarrow> list_ord strict xs ys | _ \<Rightarrow> Inl TypeError)"
| "py_ord strict VNone b = Inl TypeError"
| "py_ord strict (VDict d) b = Inl TypeError"
| "py_ord strict (VBool p) b =
     (case num_of b of None \<Rightarrow> Inl TypeError
      | Some y \<Rightarrow> Inr (if strict then xlt (Fin (if p then 1 else 0)) y
                       else xle (Fin (if p then 1 else 0)) y))"
| "py_ord strict (VInt i) b =
     (case num_of b of None \<Rightarrow> Inl TypeError
      | Some y \<Rightarrow> Inr (if strict then xlt (Fin (of_int i)) y else xle (Fin (of_int i)) y))"
| "py_ord strict (VFloat x) b =
     (case num_of b of None \<Rightarrow> Inl TypeError
      | Some y \<Rightarrow> Inr (if strict then xlt x y else xle x y))"
| "list_ord strict [] ys = Inr (if strict then ys \<noteq> [] else True)"
| "list_ord strict (x # xs) [] = Inr False"
| "list_ord strict (x # xs) (y # ys) =
     (if py_eq x y then list_ord strict xs ys else py_ord strict x y)"

definition py_le :: "pyval \<Rightarrow> pyval \<Rightarrow> exn + bool" where
  "py_le a b = py_ord False a b"

definition py_lt :: "pyval \<Rightarrow> pyval \<Rightarrow> exn + bool" where
  "py_lt a b = py_ord True a b"

text \<open>\<^verbatim>\<open>lo <= x <= hi\<close>: the second comparison is made only when the first holds.\<close>

definition py_between :: "pyval \<Rightarrow> pyval \<Rightarrow> pyval \<Rightarrow> exn + bool" where
  "py_between lo x hi =
     (case py_le lo x of Inl e \<Rightarrow> Inl e
      | Inr b \<Rightarrow> if b then py_le x hi else Inr False)"

fun starts_with :: "string \<Rightarrow> string \<Rightarrow> bool" where
  "starts_with t [] = True"
| "starts_with [] (c # s) = False"
| "starts_with (d # t) (c # s) = (c = d \<and> starts_with t s)"

fun substring_of :: "string \<Rightarrow> string \<Rightarrow> bool" where
  "substring_of s [] = (s = [])"
| "substring_of s (d # t) = (starts_with (d # t) s \<or> substring_of s t)"

fun member_eq :: "pyval \<Rightarrow> pyval list \<Rightarrow> bool" where
  "member_eq x [] = False"
| "member_eq x (y # ys) = (py_eq y x \<or> member_eq x ys)"

fun has_key :: "string \<Rightarrow> (string \<times> pyval) list \<Rightarrow> bool" where
  "has_key k [] = False"
| "has_key k ((k', v) # d) = (k = k' \<or> has_key k d)"

text \<open>
  \<^verbatim>\<open>x in c\<close>: a list holds an element equal to \<open>x\<close>; a string holds the string \<open>x\<close>
  as a substring (another left operand raises); a dict has the key \<open>x\<close> (a list or a
  dict is unhashable and raises); no other value is a container.
\<close>

fun py_in :: "pyval \<Rightarrow> pyval \<Rightarrow> exn + bool" where
  "py_in x (VList ys) = Inr (member_eq x ys)"
| "py_in x (VStr t) = (case x of VStr s \<Rightarrow> Inr (substring_of s t) | _ \<Rightarrow> Inl TypeError)"
| "py_in x (VDict d) =
     (case x of VStr s \<Rightarrow> Inr (has_key s d)
      | VList _ \<Rightarrow> Inl TypeError
      | VDict _ \<Rightarrow> Inl TypeError
      | _ \<Rightarrow> Inr False)"
| "py_in x c = Inl TypeError"

text \<open>\<^verbatim>\<open>x not in c\<close>\<close>

definition py_not_in :: "pyval \<Rightarrow> pyval \<Rightarrow> exn + bool" where
  "py_not_in x c = (case py_in x c of Inl e \<Rightarrow> Inl e | Inr b \<Rightarrow> Inr (\<not> b))"

text \<open>\<^verbatim>\<open>len(v)\<close>\<close>

fun py_len :: "pyval \<Rightarrow> exn + int" where
  "py_len (VStr s) = Inr (int (length s))"
| "py_len (VList xs) = Inr (int (length xs))"
| "py_len (VDict d) = Inr (int (length d))"
| "py_len v = Inl TypeError"

text \<open>\<^verbatim>\<open>d.get(key, default)\<close>: only a dict has the method.\<close>

fun py_get :: "pyval \<Rightarrow> string \<Rightarrow> pyval \<Rightarrow> exn + pyval" where
  "py_get (VDict d) k dflt = Inr (case map_of d k of None \<Rightarrow> dflt | Some v \<Rightarrow> v)"
| "py_get v k dflt = Inl AttributeError"

text \<open>\<^verbatim>\<open>d[key]\<close> with a string key: KeyError on a dict without it, TypeError elsewhere.\<close>

fun py_getitem :: "pyval \<Rightarrow> string \<Rightarrow> exn + pyval" where
  "py_getitem (VDict d) k = (case map_of d k of None \<Rightarrow> Inl KeyError | Some v \<Rightarrow> Inr v)"
| "py_getitem v k = Inl TypeError"

text \<open>Sequencing of steps that may raise.\<close>

definition and_then :: "exn + 'a \<Rightarrow> ('a \<Rightarrow> exn + 'b) \<Rightarrow> exn + 'b" where
  "and_then m f = (case m of Inl e \<Rightarrow> Inl e | Inr v \<Rightarrow> f v)"


section \<open>Challenge\<close>

record challenge =
  id_c :: pyval
  rated :: pyval
  variant :: pyval
  perf_name :: pyval
  speed :: pyval
  increment :: pyval
  base :: pyval
  days :: pyval
  challenger :: pyval
  challenger_title :: pyval
  challenger_is_bot :: bool
  challenger_master_title :: pyval
  challenger_name :: pyval
  challenger_rating_int :: pyval
  challenger_rating :: pyval
  from_self :: bool

text \<open>
  \<^verbatim>\<open>Configuration\<close> is imported from a module that is not part of these sources. The
  policy reads thirteen attributes of it; they are taken as a record of values, and
  reading an attribute does not raise.
\<close>

record configuration =
  time_controls :: pyval
  max_increment :: pyval
  min_increment :: pyval
  max_base :: pyval
  min_base :: pyval
  max_days :: pyval
  min_days :: pyval
  variants :: pyval
  modes :: pyval
  accept_bot :: pyval
  only_bot :: pyval
  block_list :: pyval
  max_recent_bot_challenges :: pyval

text \<open>\<^verbatim>\<open>c_info.get("timeControl", {}).get(field)\<close>\<close>

definition time_control_field :: "(string \<times> pyval) list \<Rightarrow> string \<Rightarrow> exn + pyval" where
  "time_control_field c_info field =
     py_get (case map_of c_info ''timeControl'' of None \<Rightarrow> VDict [] | Some v \<Rightarrow> v) field VNone"

text \<open>
  \<^verbatim>\<open>Challenge.__init__\<close>. The two payloads are dicts; every subscript and every \<^verbatim>\<open>.get\<close>
  on a value inside them may raise, and then no challenge is constructed.
\<close>

definition Challenge_init ::
  "(string \<times> pyval) list \<Rightarrow> (string \<times> pyval) list \<Rightarrow> exn + challenge" where
  "Challenge_init c_info user_profile =
     and_then (py_getitem (VDict c_info) ''id'') (\<lambda>v_id.
     and_then (py_getitem (VDict c_info) ''rated'') (\<lambda>v_rated.
     and_then (and_then (py_getitem (VDict c_info) ''variant'') (\<lambda>v. py_getitem v ''key''))
       (\<lambda>v_variant.
     and_then (and_then (py_getitem (VDict c_info) ''perf'') (\<lambda>v. py_getitem v ''name''))
       (\<lambda>v_perf_name.
     and_then (py_getitem (VDict c_info) ''speed'') (\<lambda>v_speed.
     and_then (time_control_field c_info ''increment'') (\<lambda>v_increment.
     and_then (time_control_field c_info ''limit'') (\<lambda>v_base.
     and_then (time_control_field c_info ''daysPerTurn'') (\<lambda>v_days.
     let v_challenger =
           py_or (case map_of c_info ''challenger'' of None \<Rightarrow> VNone | Some v \<Rightarrow> v) (VDict [])
     in
     and_then (py_get v_challenger ''title'' VNone) (\<lambda>v_title.
     let is_bot = py_eq v_title (VStr ''BOT'') in
     and_then (py_get v_challenger ''name'' (VStr ''Anonymous'')) (\<lambda>v_name.
     and_then (py_get v_challenger ''rating'' (VInt 0)) (\<lambda>v_rating.
     and_then (py_getitem (VDict user_profile) ''username'') (\<lambda>v_username.
     Inr \<lparr> id_c = v_id,
           rated = v_rated,
           variant = v_variant,
           perf_name = v_perf_name,
           speed = v_speed,
           increment = v_increment,
           base = v_base,
           days = v_days,
           challenger = v_challenger,
           challenger_title = v_title,
           challenger_is_bot = is_bot,
           challenger_master_title = (if \<not> is_bot then v_title else VNone),
           challenger_name = v_name,
           challenger_rating_int = v_rating,
           challenger_rating = py_or v_rating (VStr ''?''),
           from_self = py_eq v_name v_username \<rparr>))))))))))))"

definition is_supported_variant :: "challenge \<Rightarrow> configuration \<Rightarrow> exn + bool" where
  "is_supported_variant c challenge_cfg = py_in (variant c) (variants challenge_cfg)"

definition is_supported_time_control :: "challenge \<Rightarrow> configuration \<Rightarrow> exn + bool" where
  "is_supported_time_control c challenge_cfg =
     (let speeds = time_controls challenge_cfg;
          increment_max = max_increment challenge_cfg;
          increment_min = min_increment challenge_cfg;
          base_max = max_base challenge_cfg;
          base_min = min_base challenge_cfg;
          days_max = max_days challenge_cfg;
          days_min = min_days challenge_cfg
      in and_then (py_not_in (speed c) speeds) (\<lambda>not_allowed.
         if not_allowed then Inr False
         else if base c \<noteq> VNone \<and> increment c \<noteq> VNone then
           and_then (py_between increment_min (increment c) increment_max) (\<lambda>ok.
             if ok then py_between base_min (base c) base_max else Inr False)
         else if days c \<noteq> VNone then
           py_between days_min (days c) days_max
         else
           Inr (py_eq days_max math_inf)))"

text \<open>\<^verbatim>\<open>mode()\<close>\<close>

definition mode :: "challenge \<Rightarrow> string" where
  "mode c = (if truthy (rated c) then ''rated'' else ''casual'')"

definition is_supported_mode :: "challenge \<Rightarrow> configuration \<Rightarrow> exn + bool" where
  "is_supported_mode c challenge_cfg =
     py_in (VStr (if truthy (rated c) then ''rated'' else ''casual'')) (modes challenge_cfg)"

text \<open>
  \<^verbatim>\<open>recent_bot_challenges\<close> is a \<^verbatim>\<open>DefaultDict[str, List[Timer]]\<close>: a dict whose missing
  entries read as the empty list. A key is a hashable value, and keys that compare
  equal are one key; a list or a dict is unhashable.
\<close>

datatype pykey = KNone | KNum xrat | KStr string

fun key_of :: "pyval \<Rightarrow> exn + pykey" where
  "key_of VNone = Inr KNone"
| "key_of (VBool b) = Inr (KNum (Fin (if b then 1 else 0)))"
| "key_of (VInt i) = Inr (KNum (Fin (of_int i)))"
| "key_of (VFloat x) = Inr (KNum x)"
| "key_of (VStr s) = Inr (KStr s)"
| "key_of (VList xs) = Inl TypeError"
| "key_of (VDict d) = Inl TypeError"

text \<open>Reading an entry of the defaultdict.\<close>

definition entry :: "(pykey \<rightharpoonup> 't list) \<Rightarrow> pykey \<Rightarrow> 't list" where
  "entry recent k = (case recent k of None \<Rightarrow> [] | Some ts \<Rightarrow> ts)"

text \<open>
  \<^verbatim>\<open>Timer\<close> is imported from a module that is not part of these sources. A timer is a
  value of a type \<open>'t\<close>, and \<^verbatim>\<open>timer.is_expired()\<close> at the time of the call is the
  parameter \<open>is_expired\<close>.

  \<^verbatim>\<open>is_supported_recent\<close> returns its result, or the exception it raised, together with
  the mapping as the call leaves it.
\<close>

definition is_supported_recent ::
  "('t \<Rightarrow> bool) \<Rightarrow> challenge \<Rightarrow> configuration \<Rightarrow> (pykey \<rightharpoonup> 't list)
     \<Rightarrow> (exn + bool) \<times> (pykey \<rightharpoonup> 't list)" where
  "is_supported_recent is_expired c config recent_bot_challenges =
     (case key_of (challenger_name c) of
        Inl e \<Rightarrow> (Inl e, recent_bot_challenges)
      | Inr k \<Rightarrow>
          let recent' = recent_bot_challenges
                 (k \<mapsto> filter (\<lambda>timer. \<not> is_expired timer) (entry recent_bot_challenges k));
              max_recent_challenges = max_recent_bot_challenges config
          in if \<not> challenger_is_bot c then (Inr True, recent')
             else if max_recent_challenges = VNone then (Inr True, recent')
             else (py_lt (VInt (int (length (entry recent' k)))) max_recent_challenges,
                   recent'))"

definition decline_due_to :: "pyval \<Rightarrow> pyval \<Rightarrow> pyval" where
  "decline_due_to requirement_met decline_reason =
     (if truthy requirement_met then VNone else decline_reason)"

text \<open>
  \<^verbatim>\<open>a or b\<close> where both operands may raise: \<open>b\<close> is evaluated only when \<open>a\<close> is falsy,
  so an exception of \<open>b\<close> counts only then.
\<close>

definition or_else :: "exn + pyval \<Rightarrow> exn + pyval \<Rightarrow> exn + pyval" where
  "or_else a b = (case a of Inl e \<Rightarrow> Inl e | Inr v \<Rightarrow> if truthy v then Inr v else b)"

text \<open>\<^verbatim>\<open>self.decline_due_to(check, reason)\<close> for a check that may raise.\<close>

definition declined :: "exn + bool \<Rightarrow> string \<Rightarrow> exn + pyval" where
  "declined check reason =
     and_then check (\<lambda>ok. Inr (decline_due_to (VBool ok) (VStr reason)))"

text \<open>
  The first six operands of the \<^verbatim>\<open>or\<close> chain of \<^verbatim>\<open>is_supported\<close>; none of them
  changes the mapping.
\<close>

definition decline_reason_before_recent :: "challenge \<Rightarrow> configuration \<Rightarrow> exn + pyval" where
  "decline_reason_before_recent c config =
     or_else (or_else (or_else (or_else (or_else
       (Inr (decline_due_to (py_or (accept_bot config) (VBool (\<not> challenger_is_bot c)))
               (VStr ''noBot'')))
       (Inr (decline_due_to
               (py_or (VBool (\<not> truthy (only_bot config))) (VBool (challenger_is_bot c)))
               (VStr ''onlyBot''))))
       (declined (is_supported_time_control c config) ''timeControl''))
       (declined (is_supported_variant c config) ''variant''))
       (declined (is_supported_mode c config)
          (if truthy (rated c) then ''casual'' else ''rated'')))
       (declined (py_not_in (challenger_name c) (block_list config)) ''generic'')"

text \<open>The body of the \<^verbatim>\<open>try\<close> statement of \<^verbatim>\<open>is_supported\<close>.\<close>

definition is_supported_try ::
  "('t \<Rightarrow> bool) \<Rightarrow> challenge \<Rightarrow> configuration \<Rightarrow> (pykey \<rightharpoonup> 't list)
     \<Rightarrow> (exn + bool \<times> pyval) \<times> (pykey \<rightharpoonup> 't list)" where
  "is_supported_try is_expired c config recent_bot_challenges =
     (if from_self c then (Inr (True, VNone), recent_bot_challenges)
      else
        (case decline_reason_before_recent c config of
           Inl e \<Rightarrow> (Inl e, recent_bot_challenges)
         | Inr reason \<Rightarrow>
             if truthy reason then (Inr (reason = VNone, reason), recent_bot_challenges)
             else
               (case is_supported_recent is_expired c config recent_bot_challenges of
                  (Inl e, recent') \<Rightarrow> (Inl e, recent')
                | (Inr ok, recent') \<Rightarrow>
                    (let decline_reason = decline_due_to (VBool ok) (VStr ''later'')
                     in (Inr (decline_reason = VNone, decline_reason), recent')))))"

text \<open>
  \<^verbatim>\<open>is_supported\<close>: the \<^verbatim>\<open>try\<close> body, with every exception turned into the decision
  to decline with the reason "generic" (the handler also logs, which is not modelled).
\<close>

definition is_supported ::
  "('t \<Rightarrow> bool) \<Rightarrow> challenge \<Rightarrow> configuration \<Rightarrow> (pykey \<rightharpoonup> 't list)
     \<Rightarrow> (bool \<times> pyval) \<times> (pykey \<rightharpoonup> 't list)" where
  "is_supported is_expired c config recent_bot_challenges =
     (case is_supported_try is_expired c config recent_bot_challenges of
        (Inr decision, recent') \<Rightarrow> (decision, recent')
      | (Inl e, recent') \<Rightarrow> ((False, VStr ''generic''), recent'))"

section \<open>Player and Game\<close>

record player =
  name :: pyval
  title :: pyval
  rating :: pyval
  provisional :: pyval
  aiLevel :: pyval

text \<open>\<^verbatim>\<open>Player.__init__\<close>: the argument is whatever the payload holds for the side.\<close>

definition Player_init :: "pyval \<Rightarrow> exn + player" where
  "Player_init json =
     and_then (py_get json ''name'' VNone) (\<lambda>v_name.
     and_then (py_get json ''title'' VNone) (\<lambda>v_title.
     and_then (py_get json ''rating'' VNone) (\<lambda>v_rating.
     and_then (py_get json ''provisional'' VNone) (\<lambda>v_provisional.
     and_then (py_get json ''aiLevel'' VNone) (\<lambda>v_aiLevel.
     Inr \<lparr> name = v_name, title = v_title, rating = v_rating,
           provisional = v_provisional, aiLevel = v_aiLevel \<rparr>)))))"

text \<open>
  A game refers to its two players, and \<^verbatim>\<open>me\<close> and \<^verbatim>\<open>opponent\<close> are further references
  to the same two objects. The player objects live in a store, a list addressed by
  position; constructing a player appends it.
\<close>

type_synonym store = "player list"

definition alloc :: "store \<Rightarrow> player \<Rightarrow> nat \<times> store" where
  "alloc h p = (length h, h @ [p])"

record 't game =
  username :: string
  id_g :: pyval
  speed_g :: pyval
  clock_initial :: pyval
  clock_increment :: pyval
  perf_name_g :: pyval
  variant_name :: pyval
  white :: nat
  black :: nat
  initial_fen :: pyval
  state :: pyval
  is_white :: bool
  my_color :: string
  opponent_color :: string
  me :: nat
  opponent :: nat
  base_url :: string
  abort_time :: 't
  terminate_time :: 't
  disconnect_time :: 't

text \<open>\<^verbatim>\<open>json.get(key)\<close> on the payload dict.\<close>

definition json_get :: "(string \<times> pyval) list \<Rightarrow> string \<Rightarrow> pyval" where
  "json_get json k = (case map_of json k of None \<Rightarrow> VNone | Some v \<Rightarrow> v)"

text \<open>\<^verbatim>\<open>v.lower()\<close>: a method of strings only; \<open>lower\<close> is \<^verbatim>\<open>str.lower\<close>.\<close>

definition py_lower :: "(string \<Rightarrow> string) \<Rightarrow> pyval \<Rightarrow> exn + string" where
  "py_lower lower v = (case v of VStr s \<Rightarrow> Inr (lower s) | _ \<Rightarrow> Inl AttributeError)"

definition ten_years_in_ms :: int where
  "ten_years_in_ms = 1000 * 3600 * 24 * 365 * 10"

text \<open>
  \<^verbatim>\<open>Game.__init__\<close>. Three things it uses are parameters: \<open>lower\<close> is \<^verbatim>\<open>str.lower\<close>;
  \<open>Timer\<close> is the constructor of the imported class, at the time of the call;
  \<open>terminate_delay clock_initial clock_increment abort_time\<close> is the float expression
  \<^verbatim>\<open>(self.clock_initial + self.clock_increment) / 1000 + abort_time + 60\<close>, which raises
  when the clock values are not numbers. The result is the game and the store with the
  two new players.
\<close>

definition Game_init ::
  "(string \<Rightarrow> string) \<Rightarrow> (pyval \<Rightarrow> 't) \<Rightarrow> (pyval \<Rightarrow> pyval \<Rightarrow> int \<Rightarrow> exn + pyval) \<Rightarrow>
   store \<Rightarrow> (string \<times> pyval) list \<Rightarrow> string \<Rightarrow> string \<Rightarrow> int \<Rightarrow> exn + 't game \<times> store" where
  "Game_init lower Timer terminate_delay h json v_username v_base_url v_abort_time =
     (let clock = py_or (json_get json ''clock'') (VDict []) in
      and_then (py_get clock ''initial'' (VInt ten_years_in_ms)) (\<lambda>v_clock_initial.
      and_then (py_get clock ''increment'' (VInt 0)) (\<lambda>v_clock_increment.
      and_then (py_get (py_or (json_get json ''perf'') (VDict [])) ''name'' (VStr ''{perf?}''))
        (\<lambda>v_perf_name.
      and_then (py_getitem (json_get json ''variant'') ''name'') (\<lambda>v_variant_name.
      and_then (Player_init (json_get json ''white'')) (\<lambda>white_player.
      and_then (Player_init (json_get json ''black'')) (\<lambda>black_player.
      let (a_white, h1) = alloc h white_player;
          (a_black, h2) = alloc h1 black_player
      in
      and_then (py_lower lower (py_or (name white_player) (VStr []))) (\<lambda>white_name.
      let v_is_white = (white_name = lower v_username) in
      and_then (terminate_delay v_clock_initial v_clock_increment v_abort_time) (\<lambda>delay.
      Inr (\<lparr> username = v_username,
             id_g = json_get json ''id'',
             speed_g = json_get json ''speed'',
             clock_initial = v_clock_initial,
             clock_increment = v_clock_increment,
             perf_name_g = v_perf_name,
             variant_name = v_variant_name,
             white = a_white,
             black = a_black,
             initial_fen = json_get json ''initialFen'',
             state = json_get json ''state'',
             is_white = v_is_white,
             my_color = (if v_is_white then ''white'' else ''black''),
             opponent_color = (if v_is_white then ''black'' else ''white''),
             me = (if v_is_white then a_white else a_black),
             opponent = (if v_is_white then a_black else a_white),
             base_url = v_base_url,
             abort_time = Timer (VInt v_abort_time),
             terminate_time = Timer delay,
             disconnect_time = Timer (VInt 0) \<rparr>, h2))))))))))"

definition is_abortable :: "'t game \<Rightarrow> exn + bool" where
  "is_abortable g =
     and_then (py_getitem (state g) ''moves'') (\<lambda>moves.
     and_then (py_len moves) (\<lambda>n. Inr (n < 6)))"

text \<open>
  \<^verbatim>\<open>ping\<close>: when the abortability test raises, the exception leaves the method before
  any timer is assigned.
\<close>

definition ping :: "(pyval \<Rightarrow> 't) \<Rightarrow> 't game \<Rightarrow> int \<Rightarrow> int \<Rightarrow> int \<Rightarrow> exn + 't game" where
  "ping Timer g abort_in terminate_in disconnect_in =
     and_then (is_abortable g) (\<lambda>abortable.
       Inr ((if abortable then g\<lparr>abort_time := Timer (VInt abort_in)\<rparr> else g)
              \<lparr>terminate_time := Timer (VInt terminate_in),
               disconnect_time := Timer (VInt disconnect_in)\<rparr>))"


definition should_terminate_now :: "('t \<Rightarrow> bool) \<Rightarrow> 't game \<Rightarrow> bool" where
  "should_terminate_now is_expired g = is_expired (terminate_time g)"

definition should_disconnect_now :: "('t \<Rightarrow> bool) \<Rightarrow> 't game \<Rightarrow> bool" where
  "should_disconnect_now is_expired g = is_expired (disconnect_time g)"

section \<open>The decision, as the specification words it\<close>

text \<open>
  The specification describes \<^verbatim>\<open>is_supported\<close> as an ordered sequence of named checks
  evaluated until the first one fails. \<open>first_failure\<close> walks such a sequence: a check
  that raises ends the walk with the exception, a check that fails ends it with its
  reason, and a sequence of passing checks has no reason.
\<close>

fun first_failure :: "((exn + bool) \<times> string) list \<Rightarrow> exn + string option" where
  "first_failure [] = Inr None"
| "first_failure ((Inl e, reason) # rest) = Inl e"
| "first_failure ((Inr ok, reason) # rest) =
     (if ok then first_failure rest else Inr (Some reason))"

text \<open>The seven checks (a) to (g) of the specification with their reasons, in its order.\<close>

definition policy_checks ::
  "('t \<Rightarrow> bool) \<Rightarrow> challenge \<Rightarrow> configuration \<Rightarrow> (pykey \<rightharpoonup> 't list)
     \<Rightarrow> ((exn + bool) \<times> string) list" where
  "policy_checks is_expired c config recent =
     [(Inr (\<not> (challenger_is_bot c \<and> \<not> truthy (accept_bot config))), ''noBot''),
      (Inr (\<not> (truthy (only_bot config) \<and> \<not> challenger_is_bot c)), ''onlyBot''),
      (is_supported_time_control c config, ''timeControl''),
      (is_supported_variant c config, ''variant''),
      (is_supported_mode c config, if truthy (rated c) then ''casual'' else ''rated''),
      (py_not_in (challenger_name c) (block_list config), ''generic''),
      (fst (is_supported_recent is_expired c config recent), ''later'')]"

text \<open>
  The field \<open>k\<close> of the object \<open>obj\<close> of a payload (the \<^verbatim>\<open>timeControl\<close> of a challenge,
  the \<^verbatim>\<open>clock\<close> of a game): None when the payload has no such object, or the object
  lacks the field.
\<close>

definition payload_field :: "(string \<times> pyval) list \<Rightarrow> string \<Rightarrow> string \<Rightarrow> pyval option" where
  "payload_field json obj k = (case json_get json obj of VDict d \<Rightarrow> map_of d k | _ \<Rightarrow> None)"

section \<open>Concrete inputs\<close>

text \<open>The inputs on which the theorems below are run.\<close>

definition example_config :: configuration where
  "example_config =
     \<lparr> time_controls = VList [VStr ''bullet'', VStr ''blitz'', VStr ''correspondence''],
       max_increment = VInt 180, min_increment = VInt 0,
       max_base = VInt 1800, min_base = VInt 60,
       max_days = VInt 14, min_days = VInt 1,
       variants = VList [VStr ''standard''],
       modes = VList [VStr ''casual'', VStr ''rated''],
       accept_bot = VBool False, only_bot = VBool False,
       block_list = VList [VStr ''troll''],
       max_recent_bot_challenges = VInt 2 \<rparr>"

definition example_profile :: "(string \<times> pyval) list" where
  "example_profile = [(''username'', VStr ''mybot'')]"

definition example_challenge_payload ::
  "pyval \<Rightarrow> pyval \<Rightarrow> pyval \<Rightarrow> pyval \<Rightarrow> (string \<times> pyval) list" where
  "example_challenge_payload v_variant v_speed v_time_control v_challenger =
     [(''id'', VStr ''Ab3dE9xz''),
      (''rated'', VBool True),
      (''variant'', VDict [(''key'', v_variant)]),
      (''perf'', VDict [(''name'', VStr ''Blitz'')]),
      (''speed'', v_speed),
      (''timeControl'', v_time_control),
      (''challenger'', v_challenger)]"

definition example_bot :: pyval where
  "example_bot = VDict [(''name'', VStr ''bob''), (''title'', VStr ''BOT''), (''rating'', VInt 2000)]"

definition example_human :: pyval where
  "example_human = VDict [(''name'', VStr ''alice''), (''title'', VStr ''GM''), (''rating'', VInt 1500)]"

text \<open>
  In the examples a timer is the number of seconds it still has to run, and it is
  expired when none is left.
\<close>

definition example_expired :: "nat \<Rightarrow> bool" where
  "example_expired t = (t = 0)"

definition example_Timer :: "pyval \<Rightarrow> nat" where
  "example_Timer d = (case d of VInt i \<Rightarrow> nat i | _ \<Rightarrow> 0)"

text \<open>\<^verbatim>\<open>str.lower\<close> on ASCII text.\<close>

definition ascii_lower :: "string \<Rightarrow> string" where
  "ascii_lower s =
     map (\<lambda>c. case map_of (zip ''ABCDEFGHIJKLMNOPQRSTUVWXYZ'' ''abcdefghijklmnopqrstuvwxyz'') c of
                None \<Rightarrow> c | Some l \<Rightarrow> l) s"

text \<open>
  The delay of the terminate timer for integer clock values, in whole seconds; on other
  operands the examples let the expression raise.
\<close>

definition example_terminate_delay :: "pyval \<Rightarrow> pyval \<Rightarrow> int \<Rightarrow> exn + pyval" where
  "example_terminate_delay v_initial v_increment v_abort_time =
     (case (v_initial, v_increment) of
        (VInt a, VInt b) \<Rightarrow> Inr (VInt ((a + b) div 1000 + v_abort_time + 60))
      | _ \<Rightarrow> Inl TypeError)"

definition example_game_payload ::
  "(string \<times> pyval) list \<Rightarrow> pyval \<Rightarrow> pyval \<Rightarrow> (string \<times> pyval) list" where
  "example_game_payload clock_entry v_white v_moves =
     clock_entry @
     [(''id'', VStr ''q7ZvsdUF''),
      (''speed'', VStr ''blitz''),
      (''perf'', VDict [(''name'', VStr ''Blitz'')]),
      (''variant'', VDict [(''name'', VStr ''Standard'')]),
      (''white'', v_white),
      (''black'', VDict [(''name'', VStr ''bob''), (''rating'', VInt 2000)]),
      (''state'', VDict [(''moves'', v_moves), (''wtime'', VInt 300000), (''btime'', VInt 300000)])]"

section \<open>Properties of the built-in operations\<close>

lemma and_then_simps:
  "and_then (Inl e) f = Inl e"
  "and_then (Inr v) f = f v"
  by (simp_all add: and_then_def)

lemma or_else_simps:
  "or_else (Inl e) b = Inl e"
  "or_else (Inr v) b = (if truthy v then Inr v else b)"
  by (simp_all add: or_else_def)

lemma declined_simps:
  "declined (Inl e) r = Inl e"
  "declined (Inr ok) r = Inr (if ok then VNone else VStr r)"
  by (simp_all add: declined_def and_then_def decline_due_to_def)

lemma py_le_int: "py_le (VInt a) (VInt b) = Inr (a \<le> b)"
  by (simp add: py_le_def)

lemma py_lt_int: "py_lt (VInt a) (VInt b) = Inr (a < b)"
  by (auto simp add: py_lt_def xlt_def)

lemma py_le_int_inf: "py_le (VInt a) math_inf = Inr True"
  by (simp add: py_le_def math_inf_def)

lemma py_between_True:
  "py_between lo x hi = Inr True \<longleftrightarrow> py_le lo x = Inr True \<and> py_le x hi = Inr True"
  by (auto simp add: py_between_def split: sum.splits)

lemma py_between_int: "py_between (VInt lo) (VInt x) (VInt hi) = Inr (lo \<le> x \<and> x \<le> hi)"
  by (simp add: py_between_def py_le_int)

lemma py_lower_Inr: "py_lower lower v = Inr n \<Longrightarrow> \<exists>s. v = VStr s \<and> n = lower s"
  by (cases v) (simp_all add: py_lower_def)

lemma ten_years_value: "ten_years_in_ms = 315360000000"
  by (simp add: ten_years_in_ms_def)

section \<open>Challenge: the acceptance policy\<close>

text \<open>
  The \<^verbatim>\<open>or\<close> chain before the rate limit, with its first two operands, which cannot
  raise, decided.
\<close>

lemma decline_reason_cases:
  "decline_reason_before_recent c config =
     (if challenger_is_bot c \<and> \<not> truthy (accept_bot config) then Inr (VStr ''noBot'')
      else if truthy (only_bot config) \<and> \<not> challenger_is_bot c then Inr (VStr ''onlyBot'')
      else or_else (or_else (or_else
             (declined (is_supported_time_control c config) ''timeControl'')
             (declined (is_supported_variant c config) ''variant''))
             (declined (is_supported_mode c config)
                (if truthy (rated c) then ''casual'' else ''rated'')))
             (declined (py_not_in (challenger_name c) (block_list config)) ''generic''))"
  by (simp add: decline_reason_before_recent_def or_else_simps decline_due_to_def py_or_def)

text \<open>
  Claim C1. For a challenge that is not from the account itself, the decision of
  \<^verbatim>\<open>is_supported\<close> is the one of the first failing check in the order noBot, onlyBot,
  timeControl, variant, mode (labelled "casual" for a rated challenge and "rated" for a
  casual one), generic (block list), later (rate limit): it declines with that check's
  reason, and accepts with no reason when every check passes. A check that raises
  before any check has failed gives the decline with reason "generic" of the exception
  handler. In particular a bot challenger that is not accepted is declined with
  "noBot", and a human challenger in only-bot mode with "onlyBot", whatever the variant
  check would say.
\<close>

theorem is_supported_first_failure:
  "\<not> from_self c \<Longrightarrow>
   fst (is_supported is_expired c config recent) =
     (case first_failure (policy_checks is_expired c config recent) of
        Inl e \<Rightarrow> (False, VStr ''generic'')
      | Inr None \<Rightarrow> (True, VNone)
      | Inr (Some reason) \<Rightarrow> (False, VStr reason))
   \<and> (challenger_is_bot c \<and> \<not> truthy (accept_bot config) \<longrightarrow>
        fst (is_supported is_expired c config recent) = (False, VStr ''noBot''))
   \<and> (\<not> challenger_is_bot c \<and> truthy (only_bot config) \<longrightarrow>
        fst (is_supported is_expired c config recent) = (False, VStr ''onlyBot''))"
  unfolding is_supported_def is_supported_try_def decline_reason_cases policy_checks_def
  apply (cases "is_supported_time_control c config"; cases "is_supported_variant c config";
     cases "is_supported_mode c config";
     cases "py_not_in (challenger_name c) (block_list config)";
     cases "is_supported_recent is_expired c config recent";
     cases "fst (is_supported_recent is_expired c config recent)")
  apply (simp_all add: or_else_simps declined_simps decline_due_to_def)
  done

text \<open>
  Claim C2. \<^verbatim>\<open>is_supported_time_control\<close> returns false when the speed is not in the
  configured speeds, whatever the other fields are. When the speed is allowed: for a
  normal clock game (base and increment both present) it returns true iff the
  increment and the base each lie within their inclusive bounds; for a correspondence
  game (days per turn present, and not a normal clock game) iff the days lie within
  their inclusive bounds; for an unlimited game (neither) iff the configured maximum of
  days equals infinity. Membership and the comparisons are the ones Python evaluates
  (\<open>py_in\<close>, \<open>py_le\<close>); on integers \<open>py_le\<close> is \<open>\<le>\<close> (\<open>py_le_int\<close>).
\<close>

theorem is_supported_time_control_cases:
  "(py_in (speed c) (time_controls config) = Inr False \<longrightarrow>
      is_supported_time_control c config = Inr False)
   \<and> (py_in (speed c) (time_controls config) = Inr True \<longrightarrow>
        (base c \<noteq> VNone \<and> increment c \<noteq> VNone \<longrightarrow>
           (is_supported_time_control c config = Inr True \<longleftrightarrow>
              py_le (min_increment config) (increment c) = Inr True
              \<and> py_le (increment c) (max_increment config) = Inr True
              \<and> py_le (min_base config) (base c) = Inr True
              \<and> py_le (base c) (max_base config) = Inr True))
        \<and> (\<not> (base c \<noteq> VNone \<and> increment c \<noteq> VNone) \<and> days c \<noteq> VNone \<longrightarrow>
           (is_supported_time_control c config = Inr True \<longleftrightarrow>
              py_le (min_days config) (days c) = Inr True
              \<and> py_le (days c) (max_days config) = Inr True))
        \<and> (\<not> (base c \<noteq> VNone \<and> increment c \<noteq> VNone) \<and> days c = VNone \<longrightarrow>
           is_supported_time_control c config = Inr (py_eq (max_days config) math_inf)))"
proof -
  have not_allowed: "is_supported_time_control c config = Inr False"
    if "py_in (speed c) (time_controls config) = Inr False"
    using that by (simp add: is_supported_time_control_def py_not_in_def and_then_simps)
  have allowed: "is_supported_time_control c config =
      (if base c \<noteq> VNone \<and> increment c \<noteq> VNone then
         and_then (py_between (min_increment config) (increment c) (max_increment config))
           (\<lambda>ok. if ok then py_between (min_base config) (base c) (max_base config)
                  else Inr False)
       else if days c \<noteq> VNone then py_between (min_days config) (days c) (max_days config)
       else Inr (py_eq (max_days config) math_inf))"
    if "py_in (speed c) (time_controls config) = Inr True"
    using that
    by (simp add: is_supported_time_control_def py_not_in_def and_then_simps Let_def)
  have clock: "and_then (py_between a x b) (\<lambda>ok. if ok then py_between a' y b' else Inr False)
        = Inr True \<longleftrightarrow>
      py_le a x = Inr True \<and> py_le x b = Inr True
      \<and> py_le a' y = Inr True \<and> py_le y b' = Inr True"
    for a x b a' y b'
    by (auto simp add: and_then_def py_between_def split: sum.splits if_splits)
  show ?thesis
    using not_allowed by (auto simp add: allowed clock py_between_True)
qed

text \<open>
  Claim C3. \<^verbatim>\<open>is_supported\<close> always returns a decision: when the body of its
  \<^verbatim>\<open>try\<close> statement raises, whatever the exception, the decision is to decline with
  the reason "generic"; otherwise it is the decision of the body.
\<close>

theorem is_supported_catches:
  "fst (is_supported is_expired c config recent) =
     (case fst (is_supported_try is_expired c config recent) of
        Inl e \<Rightarrow> (False, VStr ''generic'')
      | Inr decision \<Rightarrow> decision)"
  by (simp add: is_supported_def split: prod.splits sum.splits)

text \<open>
  Claim C4. For a challenger whose name is a key \<open>k\<close> of the mapping (a hashable
  value), \<^verbatim>\<open>is_supported_recent\<close> leaves the mapping with the entry of \<open>k\<close> reduced to
  its unexpired timers and every other entry as it was. It returns true if the
  challenger is not a bot, or no limit is configured, or the number of surviving timers
  is below the limit (Python's \<^verbatim>\<open><\<close>), and false if the challenger is a bot, a limit
  is configured and the number is not below it; for an integer limit \<open>m\<close> the result
  is exactly: not a bot, or fewer than \<open>m\<close> surviving timers.
\<close>

theorem is_supported_recent_prunes_then_counts:
  "key_of (challenger_name c) = Inr k \<Longrightarrow>
   (let surviving = filter (\<lambda>timer. \<not> is_expired timer) (entry recent k);
        limit = max_recent_bot_challenges config;
        result = fst (is_supported_recent is_expired c config recent)
    in snd (is_supported_recent is_expired c config recent) = recent(k \<mapsto> surviving)
       \<and> (\<not> challenger_is_bot c \<or> limit = VNone
            \<or> py_lt (VInt (int (length surviving))) limit = Inr True \<longrightarrow> result = Inr True)
       \<and> (challenger_is_bot c \<and> limit \<noteq> VNone
            \<and> py_lt (VInt (int (length surviving))) limit = Inr False \<longrightarrow> result = Inr False)
       \<and> (\<forall>m. limit = VInt m \<longrightarrow>
             result = Inr (\<not> challenger_is_bot c \<or> int (length surviving) < m)))"
  by (auto simp add: is_supported_recent_def Let_def entry_def py_lt_int)

text \<open>
  Claim C8. A challenge constructed from a payload whose challenger name equals
  (Python's \<^verbatim>\<open>==\<close>) the username of the local profile is accepted with no reason,
  whatever its other fields and whatever the configuration, and the mapping of recent
  challenges is left as it was.
\<close>

theorem is_supported_from_self:
  "Challenge_init c_info user_profile = Inr c \<Longrightarrow>
   py_getitem (VDict user_profile) ''username'' = Inr v_username \<Longrightarrow>
   py_eq (challenger_name c) v_username \<Longrightarrow>
   is_supported is_expired c config recent = ((True, VNone), recent)"
proof -
  assume init: "Challenge_init c_info user_profile = Inr c"
    and user: "py_getitem (VDict user_profile) ''username'' = Inr v_username"
    and same: "py_eq (challenger_name c) v_username"
  have "from_self c = py_eq (challenger_name c) v_username"
    using init user
    by (auto simp add: Challenge_init_def and_then_def Let_def split: sum.splits)
  with same have "from_self c" by simp
  then show ?thesis
    by (simp add: is_supported_def is_supported_try_def)
qed

text \<open>What the constructor stores for the three components of the time control.\<close>

lemma time_control_field_absent:
  "time_control_field c_info k = Inr v \<Longrightarrow>
   payload_field c_info ''timeControl'' k = None \<Longrightarrow> v = VNone"
  by (cases "map_of c_info ''timeControl''"; cases "the (map_of c_info ''timeControl'')")
     (auto simp add: time_control_field_def payload_field_def json_get_def)

lemma Challenge_init_time_control:
  "Challenge_init c_info user_profile = Inr c \<Longrightarrow>
   time_control_field c_info ''increment'' = Inr (increment c)
   \<and> time_control_field c_info ''limit'' = Inr (base c)
   \<and> time_control_field c_info ''daysPerTurn'' = Inr (days c)"
  by (auto simp add: Challenge_init_def and_then_def Let_def split: sum.splits)

text \<open>
  Claim C9. For a challenge constructed from a payload whose time control has no days
  per turn and lacks the base (\<^verbatim>\<open>limit\<close>) or the increment, \<^verbatim>\<open>is_supported_time_control\<close>
  takes the unlimited branch: with an allowed speed it returns true iff the configured
  maximum of days equals infinity (false for a speed that is not allowed), and the
  bounds configured for base and increment play no part in the result.
\<close>

theorem is_supported_time_control_partial_clock:
  "Challenge_init c_info user_profile = Inr c \<Longrightarrow>
   payload_field c_info ''timeControl'' ''daysPerTurn'' = None \<Longrightarrow>
   payload_field c_info ''timeControl'' ''limit'' = None
     \<or> payload_field c_info ''timeControl'' ''increment'' = None \<Longrightarrow>
   is_supported_time_control c config =
     (case py_in (speed c) (time_controls config) of
        Inl e \<Rightarrow> Inl e
      | Inr allowed \<Rightarrow> Inr (allowed \<and> py_eq (max_days config) math_inf))
   \<and> is_supported_time_control c
        (config\<lparr>min_base := lo_b, max_base := hi_b,
                min_increment := lo_i, max_increment := hi_i\<rparr>)
      = is_supported_time_control c config"
proof -
  assume init: "Challenge_init c_info user_profile = Inr c"
    and no_days: "payload_field c_info ''timeControl'' ''daysPerTurn'' = None"
    and partial: "payload_field c_info ''timeControl'' ''limit'' = None
       \<or> payload_field c_info ''timeControl'' ''increment'' = None"
  note fields = Challenge_init_time_control [OF init]
  have days: "days c = VNone"
    using fields no_days time_control_field_absent by blast
  have clock: "base c = VNone \<or> increment c = VNone"
    using fields partial time_control_field_absent by blast
  have unlimited: "is_supported_time_control c cfg =
      (case py_in (speed c) (time_controls cfg) of
         Inl e \<Rightarrow> Inl e
       | Inr allowed \<Rightarrow> Inr (allowed \<and> py_eq (max_days cfg) math_inf))" for cfg
    using days clock
    by (auto simp add: is_supported_time_control_def py_not_in_def and_then_def Let_def
          split: sum.splits)
  show ?thesis
    by (simp add: unlimited split: sum.splits)
qed

section \<open>Game: construction and deadlines\<close>

lemma clock_get:
  "py_get (py_or (json_get json ''clock'') (VDict [])) k dflt = Inr r \<Longrightarrow>
   r = (case payload_field json ''clock'' k of None \<Rightarrow> dflt | Some x \<Rightarrow> x)"
  by (cases "json_get json ''clock''")
     (auto simp add: py_or_def payload_field_def split: if_splits)

lemma Player_init_name:
  "Player_init v = Inr p \<Longrightarrow>
   \<exists>d. v = VDict d \<and> name p = (case map_of d ''name'' of None \<Rightarrow> VNone | Some x \<Rightarrow> x)"
  by (cases v) (auto simp add: Player_init_def and_then_def)

text \<open>What a successful construction has computed.\<close>

lemma Game_init_Inr:
  assumes "Game_init lower Timer terminate_delay h json u b a = Inr (g, h')"
  obtains ci cinc pn vn wp bp wn delay where
    "py_get (py_or (json_get json ''clock'') (VDict [])) ''initial'' (VInt ten_years_in_ms)
       = Inr ci"
    "py_get (py_or (json_get json ''clock'') (VDict [])) ''increment'' (VInt 0) = Inr cinc"
    "Player_init (json_get json ''white'') = Inr wp"
    "Player_init (json_get json ''black'') = Inr bp"
    "py_lower lower (py_or (name wp) (VStr [])) = Inr wn"
    "terminate_delay ci cinc a = Inr delay"
    "h' = h @ [wp, bp]"
    "g = \<lparr> username = u,
           id_g = json_get json ''id'',
           speed_g = json_get json ''speed'',
           clock_initial = ci,
           clock_increment = cinc,
           perf_name_g = pn,
           variant_name = vn,
           white = length h,
           black = Suc (length h),
           initial_fen = json_get json ''initialFen'',
           state = json_get json ''state'',
           is_white = (wn = lower u),
           my_color = (if wn = lower u then ''white'' else ''black''),
           opponent_color = (if wn = lower u then ''black'' else ''white''),
           me = (if wn = lower u then length h else Suc (length h)),
           opponent = (if wn = lower u then Suc (length h) else length h),
           base_url = b,
           abort_time = Timer (VInt a),
           terminate_time = Timer delay,
           disconnect_time = Timer (VInt 0) \<rparr>"
  using assms
  by (auto simp add: Game_init_def and_then_def Let_def alloc_def split: sum.splits)

text \<open>
  Claim C5, as the code has it. Of a constructed game, the stored clock initial is the
  \<^verbatim>\<open>initial\<close> field of the payload's clock object, and ten years in milliseconds
  (315360000000) when the clock object or the field is absent; the stored clock
  increment is the \<^verbatim>\<open>increment\<close> field, and 0 when the clock object or the field is
  absent. Each of the two is looked up on its own.
\<close>

theorem Game_init_clock_defaults:
  "Game_init lower Timer terminate_delay h json v_username v_base_url v_abort_time
     = Inr (g, h') \<Longrightarrow>
   clock_initial g =
     (case payload_field json ''clock'' ''initial'' of
        None \<Rightarrow> VInt 315360000000 | Some v \<Rightarrow> v)
   \<and> clock_increment g =
     (case payload_field json ''clock'' ''increment'' of None \<Rightarrow> VInt 0 | Some v \<Rightarrow> v)"
  by (erule Game_init_Inr) (auto dest!: clock_get simp add: ten_years_value)

text \<open>
  Claim C6. Where the abortability test of the game evaluates (its state has a move
  sequence), \<^verbatim>\<open>ping\<close> returns the game with the terminate timer and the disconnect
  timer re-armed with the supplied delays, the abort timer re-armed with the supplied
  delay if the game is abortable and left as it was otherwise, and every other field
  unchanged.
\<close>

theorem ping_rearms:
  "is_abortable g = Inr abortable \<Longrightarrow>
   ping Timer g abort_in terminate_in disconnect_in =
     Inr (g\<lparr> abort_time := (if abortable then Timer (VInt abort_in) else abort_time g),
             terminate_time := Timer (VInt terminate_in),
             disconnect_time := Timer (VInt disconnect_in) \<rparr>)"
  by (simp add: ping_def and_then_simps)


text \<open>
  Claim C10. Of a constructed game: \<^verbatim>\<open>white\<close> and \<^verbatim>\<open>black\<close> refer to two distinct
  player objects built from the payload's two sides; \<^verbatim>\<open>is_white\<close> holds iff the white
  player's name, taken as the empty string when it is absent (or otherwise falsy),
  equals the username after both are lowercased; \<^verbatim>\<open>my_color\<close> and \<^verbatim>\<open>opponent_color\<close>
  are "white" and "black" in the order \<^verbatim>\<open>is_white\<close> gives; \<^verbatim>\<open>me\<close> refers to the white
  player iff \<^verbatim>\<open>is_white\<close>, and \<^verbatim>\<open>opponent\<close> to the other one.
\<close>

theorem Game_init_sides:
  "Game_init lower Timer terminate_delay h json v_username v_base_url v_abort_time
     = Inr (g, h') \<Longrightarrow>
   Player_init (json_get json ''white'') = Inr (h' ! white g)
   \<and> Player_init (json_get json ''black'') = Inr (h' ! black g)
   \<and> white g \<noteq> black g
   \<and> name (h' ! white g) =
        (case payload_field json ''white'' ''name'' of None \<Rightarrow> VNone | Some v \<Rightarrow> v)
   \<and> (\<exists>s. py_or (name (h' ! white g)) (VStr []) = VStr s
            \<and> is_white g = (lower s = lower v_username))
   \<and> my_color g = (if is_white g then ''white'' else ''black'')
   \<and> opponent_color g = (if is_white g then ''black'' else ''white'')
   \<and> me g = (if is_white g then white g else black g)
   \<and> opponent g = (if is_white g then black g else white g)
   \<and> (me g = white g) = is_white g
   \<and> (opponent g = white g) = (\<not> is_white g)"
  apply (erule Game_init_Inr)
  apply (auto dest!: py_lower_Inr Player_init_name simp add: nth_append payload_field_def)
  done

section \<open>The theorems on concrete inputs\<close>

text \<open>
  Each theorem above is applied to concrete payloads and configurations, and the
  definitions are evaluated there.
\<close>

lemmas example_challenge_defs =
  Challenge_init_def example_challenge_payload_def example_profile_def example_bot_def
  example_human_def time_control_field_def and_then_def py_or_def

lemmas example_policy_defs =
  example_config_def policy_checks_def is_supported_time_control_def is_supported_variant_def
  is_supported_mode_def is_supported_recent_def py_not_in_def py_between_def py_le_def py_lt_def
  xlt_def entry_def example_expired_def math_inf_def Let_def

lemma example_challenge:
  "Challenge_init (example_challenge_payload v_variant v_speed (VDict tc) (VDict ch))
     example_profile =
   Inr \<lparr> id_c = VStr ''Ab3dE9xz'',
         rated = VBool True,
         variant = v_variant,
         perf_name = VStr ''Blitz'',
         speed = v_speed,
         increment = (case map_of tc ''increment'' of None \<Rightarrow> VNone | Some v \<Rightarrow> v),
         base = (case map_of tc ''limit'' of None \<Rightarrow> VNone | Some v \<Rightarrow> v),
         days = (case map_of tc ''daysPerTurn'' of None \<Rightarrow> VNone | Some v \<Rightarrow> v),
         challenger = VDict ch,
         challenger_title = (case map_of ch ''title'' of None \<Rightarrow> VNone | Some v \<Rightarrow> v),
         challenger_is_bot =
           py_eq (case map_of ch ''title'' of None \<Rightarrow> VNone | Some v \<Rightarrow> v) (VStr ''BOT''),
         challenger_master_title =
           (if \<not> py_eq (case map_of ch ''title'' of None \<Rightarrow> VNone | Some v \<Rightarrow> v)
                   (VStr ''BOT'')
            then case map_of ch ''title'' of None \<Rightarrow> VNone | Some v \<Rightarrow> v else VNone),
         challenger_name =
           (case map_of ch ''name'' of None \<Rightarrow> VStr ''Anonymous'' | Some v \<Rightarrow> v),
         challenger_rating_int = (case map_of ch ''rating'' of None \<Rightarrow> VInt 0 | Some v \<Rightarrow> v),
         challenger_rating =
           py_or (case map_of ch ''rating'' of None \<Rightarrow> VInt 0 | Some v \<Rightarrow> v) (VStr ''?''),
         from_self =
           py_eq (case map_of ch ''name'' of None \<Rightarrow> VStr ''Anonymous'' | Some v \<Rightarrow> v)
             (VStr ''mybot'') \<rparr>"
  by (cases ch)
     (simp_all add: Challenge_init_def example_challenge_payload_def example_profile_def
        time_control_field_def and_then_def py_or_def Let_def)

theorem is_supported_first_failure_witness:
  "(case Challenge_init
           (example_challenge_payload (VStr ''atomic'') (VStr ''blitz'')
              (VDict [(''limit'', VInt 300), (''increment'', VInt 0)]) example_bot)
           example_profile of
      Inl e \<Rightarrow> False
    | Inr c \<Rightarrow>
        \<not> from_self c
        \<and> challenger_is_bot c
        \<and> is_supported_variant c example_config = Inr False
        \<and> fst (is_supported example_expired c example_config Map.empty)
            = (False, VStr ''noBot'')
        \<and> fst (is_supported example_expired c (example_config\<lparr>accept_bot := VBool True\<rparr>)
                 Map.empty)
            = (False, VStr ''variant''))"
proof -
  define c where "c = projr (Challenge_init
       (example_challenge_payload (VStr ''atomic'') (VStr ''blitz'')
          (VDict [(''limit'', VInt 300), (''increment'', VInt 0)]) example_bot)
       example_profile)"
  have init: "Challenge_init
       (example_challenge_payload (VStr ''atomic'') (VStr ''blitz'')
          (VDict [(''limit'', VInt 300), (''increment'', VInt 0)]) example_bot)
       example_profile = Inr c"
    unfolding c_def by (simp add: example_challenge_defs)
  have c: "\<not> from_self c" "challenger_is_bot c"
    unfolding c_def by (simp_all add: example_challenge_defs)
  have variant: "is_supported_variant c example_config = Inr False"
    unfolding c_def by (simp add: example_challenge_defs example_policy_defs)
  have first: "fst (is_supported example_expired c example_config Map.empty)
      = (False, VStr ''noBot'')"
    using is_supported_first_failure [OF c(1), THEN conjunct2, THEN conjunct1,
        of example_config example_expired Map.empty] c
    by (simp add: example_config_def)
  have "first_failure (policy_checks example_expired c
      (example_config\<lparr>accept_bot := VBool True\<rparr>) Map.empty) = Inr (Some ''variant'')"
    unfolding c_def by (simp add: example_challenge_defs example_policy_defs)
  with is_supported_first_failure [OF c(1), THEN conjunct1, of example_expired
        "example_config\<lparr>accept_bot := VBool True\<rparr>" Map.empty]
  have second: "fst (is_supported example_expired c (example_config\<lparr>accept_bot := VBool True\<rparr>)
      Map.empty) = (False, VStr ''variant'')"
    by simp
  show ?thesis
    using init c variant first second by simp
qed


theorem is_supported_time_control_cases_witness:
  "(case Challenge_init
           (example_challenge_payload (VStr ''standard'') (VStr ''classical'')
              (VDict [(''limit'', VInt 300), (''increment'', VInt 0)]) example_human)
           example_profile of
      Inl e \<Rightarrow> False
    | Inr c \<Rightarrow> is_supported_time_control c example_config = Inr False)
   \<and> (case Challenge_init
           (example_challenge_payload (VStr ''standard'') (VStr ''blitz'')
              (VDict [(''limit'', VInt 300), (''increment'', VInt 0)]) example_human)
           example_profile of
      Inl e \<Rightarrow> False
    | Inr c \<Rightarrow> is_supported_time_control c example_config = Inr True
        \<and> is_supported_time_control c (example_config\<lparr>max_base := VInt 180\<rparr>) \<noteq> Inr True)
   \<and> (case Challenge_init
           (example_challenge_payload (VStr ''standard'') (VStr ''correspondence'')
              (VDict [(''daysPerTurn'', VInt 3)]) example_human)
           example_profile of
      Inl e \<Rightarrow> False
    | Inr c \<Rightarrow> is_supported_time_control c example_config = Inr True
        \<and> is_supported_time_control c (example_config\<lparr>max_days := VInt 2\<rparr>) \<noteq> Inr True)
   \<and> (case Challenge_init
           (example_challenge_payload (VStr ''standard'') (VStr ''correspondence'')
              (VDict []) example_human)
           example_profile of
      Inl e \<Rightarrow> False
    | Inr c \<Rightarrow> is_supported_time_control c example_config = Inr False
        \<and> is_supported_time_control c (example_config\<lparr>max_days := math_inf\<rparr>) = Inr True)"
proof -
  define c1 where "c1 = projr (Challenge_init
      (example_challenge_payload (VStr ''standard'') (VStr ''classical'')
         (VDict [(''limit'', VInt 300), (''increment'', VInt 0)]) example_human)
      example_profile)"
  define c2 where "c2 = projr (Challenge_init
      (example_challenge_payload (VStr ''standard'') (VStr ''blitz'')
         (VDict [(''limit'', VInt 300), (''increment'', VInt 0)]) example_human)
      example_profile)"
  define c3 where "c3 = projr (Challenge_init
      (example_challenge_payload (VStr ''standard'') (VStr ''correspondence'')
         (VDict [(''daysPerTurn'', VInt 3)]) example_human)
      example_profile)"
  define c4 where "c4 = projr (Challenge_init
      (example_challenge_payload (VStr ''standard'') (VStr ''correspondence'')
         (VDict []) example_human)
      example_profile)"
  note ev = example_challenge example_human_def
  note cfg = example_config_def py_le_int math_inf_def py_le_def
  have init:
    "Challenge_init
      (example_challenge_payload (VStr ''standard'') (VStr ''classical'')
         (VDict [(''limit'', VInt 300), (''increment'', VInt 0)]) example_human)
      example_profile = Inr c1"
    "Challenge_init
      (example_challenge_payload (VStr ''standard'') (VStr ''blitz'')
         (VDict [(''limit'', VInt 300), (''increment'', VInt 0)]) example_human)
      example_profile = Inr c2"
    "Challenge_init
      (example_challenge_payload (VStr ''standard'') (VStr ''correspondence'')
         (VDict [(''daysPerTurn'', VInt 3)]) example_human)
      example_profile = Inr c3"
    "Challenge_init
      (example_challenge_payload (VStr ''standard'') (VStr ''correspondence'')
         (VDict []) example_human)
      example_profile = Inr c4"
    unfolding c1_def c2_def c3_def c4_def by (simp_all add: ev)
  have f1: "speed c1 = VStr ''classical''"
    unfolding c1_def by (simp add: ev)
  have f2: "speed c2 = VStr ''blitz''" "base c2 = VInt 300" "increment c2 = VInt 0"
    unfolding c2_def by (simp_all add: ev)
  have f3: "speed c3 = VStr ''correspondence''" "base c3 = VNone" "increment c3 = VNone"
      "days c3 = VInt 3"
    unfolding c3_def by (simp_all add: ev)
  have f4: "speed c4 = VStr ''correspondence''" "base c4 = VNone" "increment c4 = VNone"
      "days c4 = VNone"
    unfolding c4_def by (simp_all add: ev)
  have r1: "is_supported_time_control c1 example_config = Inr False"
    using is_supported_time_control_cases [of c1 example_config] f1
    by (simp add: cfg)
  have r2: "is_supported_time_control c2 example_config = Inr True"
    using is_supported_time_control_cases [of c2 example_config] f2
    by (simp add: cfg)
  have r2': "is_supported_time_control c2 (example_config\<lparr>max_base := VInt 180\<rparr>) \<noteq> Inr True"
    using is_supported_time_control_cases [of c2 "example_config\<lparr>max_base := VInt 180\<rparr>"] f2
    by (simp add: cfg)
  have r3: "is_supported_time_control c3 example_config = Inr True"
    using is_supported_time_control_cases [of c3 example_config] f3
    by (simp add: cfg)
  have r3': "is_supported_time_control c3 (example_config\<lparr>max_days := VInt 2\<rparr>) \<noteq> Inr True"
    using is_supported_time_control_cases [of c3 "example_config\<lparr>max_days := VInt 2\<rparr>"] f3
    by (simp add: cfg)
  have r4: "is_supported_time_control c4 example_config = Inr False"
    using is_supported_time_control_cases [of c4 example_config] f4
    by (simp add: cfg)
  have r4': "is_supported_time_control c4 (example_config\<lparr>max_days := math_inf\<rparr>) = Inr True"
    using is_supported_time_control_cases [of c4 "example_config\<lparr>max_days := math_inf\<rparr>"] f4
    by (simp add: cfg)
  show ?thesis
    using init r1 r2 r2' r3 r3' r4 r4' by simp
qed


theorem is_supported_catches_witness:
  "(case Challenge_init
           (example_challenge_payload (VStr ''standard'') (VStr ''blitz'')
              (VDict [(''limit'', VStr ''300''), (''increment'', VInt 0)]) example_human)
           example_profile of
      Inl e \<Rightarrow> False
    | Inr c \<Rightarrow>
        fst (is_supported_try example_expired c example_config Map.empty) = Inl TypeError
        \<and> fst (is_supported example_expired c example_config Map.empty)
            = (False, VStr ''generic'')
        \<and> fst (is_supported_try example_expired c (example_config\<lparr>variants := VNone\<rparr>)
                 Map.empty) = Inl TypeError
        \<and> fst (is_supported example_expired c (example_config\<lparr>variants := VNone\<rparr>)
                 Map.empty) = (False, VStr ''generic''))"
proof -
  define c where "c = projr (Challenge_init
      (example_challenge_payload (VStr ''standard'') (VStr ''blitz'')
         (VDict [(''limit'', VStr ''300''), (''increment'', VInt 0)]) example_human)
      example_profile)"
  note ev = example_challenge example_human_def
  have init: "Challenge_init
      (example_challenge_payload (VStr ''standard'') (VStr ''blitz'')
         (VDict [(''limit'', VStr ''300''), (''increment'', VInt 0)]) example_human)
      example_profile = Inr c"
    unfolding c_def by (simp add: ev)
  have f: "\<not> from_self c" "\<not> challenger_is_bot c" "speed c = VStr ''blitz''"
      "base c = VStr ''300''" "increment c = VInt 0"
    unfolding c_def by (simp_all add: ev)
  have tc: "is_supported_time_control c cfg = Inl TypeError"
    if "time_controls cfg = time_controls example_config"
      "min_increment cfg = VInt 0" "max_increment cfg = VInt 180" "min_base cfg = VInt 60"
    for cfg
    using f that
    by (simp add: is_supported_time_control_def example_config_def py_not_in_def
          and_then_def py_between_def py_le_def)
  have raise: "fst (is_supported_try example_expired c cfg Map.empty) = Inl TypeError"
    if "time_controls cfg = time_controls example_config"
      "min_increment cfg = VInt 0" "max_increment cfg = VInt 180" "min_base cfg = VInt 60"
      "accept_bot cfg = VBool False" "only_bot cfg = VBool False"
    for cfg
    using f tc [OF that(1-4)] that(5,6)
    by (simp add: is_supported_try_def decline_reason_cases declined_simps or_else_simps)
  have r1: "fst (is_supported_try example_expired c example_config Map.empty) = Inl TypeError"
    by (rule raise) (simp_all add: example_config_def)
  have r2: "fst (is_supported_try example_expired c (example_config\<lparr>variants := VNone\<rparr>)
      Map.empty) = Inl TypeError"
    by (rule raise) (simp_all add: example_config_def)
  show ?thesis
    using init r1 r2
      is_supported_catches [of example_expired c example_config Map.empty]
      is_supported_catches [of example_expired c "example_config\<lparr>variants := VNone\<rparr>" Map.empty]
    by simp
qed

theorem is_supported_recent_prunes_then_counts_witness:
  "(case Challenge_init
           (example_challenge_payload (VStr ''standard'') (VStr ''blitz'')
              (VDict [(''limit'', VInt 300), (''increment'', VInt 0)]) example_bot)
           example_profile of
      Inl e \<Rightarrow> False
    | Inr c \<Rightarrow>
        key_of (challenger_name c) = Inr (KStr ''bob'')
        \<and> is_supported_recent example_expired c example_config
             [KStr ''eve'' \<mapsto> [0], KStr ''bob'' \<mapsto> [30, 0, 45]]
           = (Inr False, [KStr ''eve'' \<mapsto> [0], KStr ''bob'' \<mapsto> [30, 45]])
        \<and> fst (is_supported_recent example_expired c
                 (example_config\<lparr>max_recent_bot_challenges := VInt 3\<rparr>)
                 [KStr ''eve'' \<mapsto> [0], KStr ''bob'' \<mapsto> [30, 0, 45]]) = Inr True
        \<and> fst (is_supported_recent example_expired c
                 (example_config\<lparr>max_recent_bot_challenges := VNone\<rparr>)
                 [KStr ''eve'' \<mapsto> [0], KStr ''bob'' \<mapsto> [30, 0, 45]]) = Inr True)"
proof -
  define c where "c = projr (Challenge_init
      (example_challenge_payload (VStr ''standard'') (VStr ''blitz'')
         (VDict [(''limit'', VInt 300), (''increment'', VInt 0)]) example_bot)
      example_profile)"
  let ?recent = "[KStr ''eve'' \<mapsto> [0], KStr ''bob'' \<mapsto> [30, 0, 45 :: nat]]"
  note ev = example_challenge example_bot_def
  have init: "Challenge_init
      (example_challenge_payload (VStr ''standard'') (VStr ''blitz'')
         (VDict [(''limit'', VInt 300), (''increment'', VInt 0)]) example_bot)
      example_profile = Inr c"
    unfolding c_def by (simp add: ev)
  have f: "challenger_is_bot c" "challenger_name c = VStr ''bob''"
    unfolding c_def by (simp_all add: ev)
  have k: "key_of (challenger_name c) = Inr (KStr ''bob'')"
    using f by simp
  have surviving: "filter (\<lambda>timer. \<not> example_expired timer) (entry ?recent (KStr ''bob''))
      = [30, 45]"
    by (simp add: entry_def example_expired_def)
  have r1: "is_supported_recent example_expired c example_config ?recent
      = (Inr False, [KStr ''eve'' \<mapsto> [0], KStr ''bob'' \<mapsto> [30, 45]])"
    using is_supported_recent_prunes_then_counts
        [OF k, of example_expired ?recent example_config] f
    by (simp add: Let_def surviving example_config_def prod_eq_iff)
  have r2: "fst (is_supported_recent example_expired c
      (example_config\<lparr>max_recent_bot_challenges := VInt 3\<rparr>) ?recent) = Inr True"
    using is_supported_recent_prunes_then_counts
        [OF k, of example_expired ?recent "example_config\<lparr>max_recent_bot_challenges := VInt 3\<rparr>"] f
    by (simp add: Let_def surviving example_config_def)
  have r3: "fst (is_supported_recent example_expired c
      (example_config\<lparr>max_recent_bot_challenges := VNone\<rparr>) ?recent) = Inr True"
    using is_supported_recent_prunes_then_counts
        [OF k, of example_expired ?recent "example_config\<lparr>max_recent_bot_challenges := VNone\<rparr>"] f
    by (simp add: Let_def surviving example_config_def)
  show ?thesis
    using init k r1 r2 r3 by simp
qed

theorem is_supported_from_self_witness:
  "(case Challenge_init
           (example_challenge_payload (VStr ''atomic'') (VStr ''classical'')
              (VDict []) (VDict [(''name'', VStr ''mybot''), (''title'', VStr ''BOT'')]))
           example_profile of
      Inl e \<Rightarrow> False
    | Inr c \<Rightarrow>
        py_getitem (VDict example_profile) ''username'' = Inr (VStr ''mybot'')
        \<and> py_eq (challenger_name c) (VStr ''mybot'')
        \<and> is_supported example_expired c
             (example_config\<lparr>block_list := VList [VStr ''mybot'']\<rparr>) [KStr ''mybot'' \<mapsto> [5, 0]]
           = ((True, VNone), [KStr ''mybot'' \<mapsto> [5, 0]]))"
proof -
  define c where "c = projr (Challenge_init
      (example_challenge_payload (VStr ''atomic'') (VStr ''classical'')
         (VDict []) (VDict [(''name'', VStr ''mybot''), (''title'', VStr ''BOT'')]))
      example_profile)"
  have init: "Challenge_init
      (example_challenge_payload (VStr ''atomic'') (VStr ''classical'')
         (VDict []) (VDict [(''name'', VStr ''mybot''), (''title'', VStr ''BOT'')]))
      example_profile = Inr c"
    unfolding c_def by (simp add: example_challenge)
  have user: "py_getitem (VDict example_profile) ''username'' = Inr (VStr ''mybot'')"
    by (simp add: example_profile_def)
  have same: "py_eq (challenger_name c) (VStr ''mybot'')"
    unfolding c_def by (simp add: example_challenge)
  show ?thesis
    using init user same
      is_supported_from_self [OF init user same, of example_expired
        "example_config\<lparr>block_list := VList [VStr ''mybot'']\<rparr>" "[KStr ''mybot'' \<mapsto> [5, 0]]"]
    by simp
qed

theorem is_supported_time_control_partial_clock_witness:
  "(case Challenge_init
           (example_challenge_payload (VStr ''standard'') (VStr ''blitz'')
              (VDict [(''limit'', VInt 5)]) example_human)
           example_profile of
      Inl e \<Rightarrow> False
    | Inr c \<Rightarrow>
        base c = VInt 5
        \<and> py_le (min_base example_config) (base c) = Inr False
        \<and> is_supported_time_control c (example_config\<lparr>max_days := math_inf\<rparr>) = Inr True
        \<and> is_supported_time_control c example_config = Inr False)"
proof -
  let ?payload = "example_challenge_payload (VStr ''standard'') (VStr ''blitz'')
      (VDict [(''limit'', VInt 5)]) example_human"
  define c where "c = projr (Challenge_init ?payload example_profile)"
  note ev = example_challenge example_human_def
  have init: "Challenge_init ?payload example_profile = Inr c"
    unfolding c_def by (simp add: ev)
  have f: "speed c = VStr ''blitz''" "base c = VInt 5"
    unfolding c_def by (simp_all add: ev)
  have absent: "payload_field ?payload ''timeControl'' ''daysPerTurn'' = None"
      "payload_field ?payload ''timeControl'' ''limit'' = None
        \<or> payload_field ?payload ''timeControl'' ''increment'' = None"
    by (simp_all add: payload_field_def json_get_def example_challenge_payload_def)
  note unlimited = is_supported_time_control_partial_clock [OF init absent, THEN conjunct1]
  have r1: "is_supported_time_control c (example_config\<lparr>max_days := math_inf\<rparr>) = Inr True"
    using unlimited [of "example_config\<lparr>max_days := math_inf\<rparr>"] f
    by (simp add: example_config_def math_inf_def)
  have r2: "is_supported_time_control c example_config = Inr False"
    using unlimited [of example_config] f
    by (simp add: example_config_def math_inf_def)
  have low: "py_le (min_base example_config) (base c) = Inr False"
    using f by (simp add: example_config_def py_le_int)
  show ?thesis
    using init f low r1 r2 by simp
qed

lemmas example_game_defs =
  Game_init_def example_game_payload_def json_get_def Player_init_def and_then_def
  py_or_def alloc_def py_lower_def ascii_lower_def example_terminate_delay_def example_Timer_def
  payload_field_def

theorem Game_init_clock_defaults_witness:
  "map_sum id (\<lambda>r. (clock_initial (fst r), clock_increment (fst r)))
     (Game_init ascii_lower example_Timer example_terminate_delay []
        (example_game_payload [(''clock'', VDict [(''initial'', VInt 300000)])]
           (VDict [(''name'', VStr ''MyBot'')]) (VStr ''e2e4''))
        ''mybot'' ''https://lichess.org/'' 20)
   = Inr (VInt 300000, VInt 0)"
proof -
  let ?json = "example_game_payload [(''clock'', VDict [(''initial'', VInt 300000)])]
           (VDict [(''name'', VStr ''MyBot'')]) (VStr ''e2e4'')"
  obtain g h' where init:
    "Game_init ascii_lower example_Timer example_terminate_delay [] ?json
       ''mybot'' ''https://lichess.org/'' 20 = Inr (g, h')"
    by (simp add: example_game_defs)
  have "payload_field ?json ''clock'' ''initial'' = Some (VInt 300000)"
    and "payload_field ?json ''clock'' ''increment'' = None"
    by (simp_all add: payload_field_def json_get_def example_game_payload_def)
  with Game_init_clock_defaults [OF init]
  have "clock_initial g = VInt 300000 \<and> clock_increment g = VInt 0"
    by simp
  with init show ?thesis by simp
qed

text \<open>
  Claim C5 as it is stated fails: a payload without a clock object gives a game whose
  clock increment is 0, not ten years in milliseconds.
\<close>

theorem Game_init_increment_default_counterexample:
  "payload_field (example_game_payload [] (VDict [(''name'', VStr ''MyBot'')]) (VStr ''e2e4''))
      ''clock'' ''increment'' = None
   \<and> map_sum id (clock_increment \<circ> fst)
        (Game_init ascii_lower example_Timer example_terminate_delay []
           (example_game_payload [] (VDict [(''name'', VStr ''MyBot'')]) (VStr ''e2e4''))
           ''mybot'' ''https://lichess.org/'' 20)
      = Inr (VInt 0)
   \<and> VInt 0 \<noteq> VInt ten_years_in_ms"
  by (simp add: example_game_defs ten_years_in_ms_def)

lemma example_game:
  "Game_init ascii_lower example_Timer example_terminate_delay []
     (example_game_payload [(''clock'', VDict [(''initial'', VInt 300000), (''increment'', VInt 2000)])]
        (VDict wh) v_moves)
     v_username ''https://lichess.org/'' v_abort_time =
   (case py_lower ascii_lower
           (py_or (case map_of wh ''name'' of None \<Rightarrow> VNone | Some v \<Rightarrow> v) (VStr [])) of
      Inl e \<Rightarrow> Inl e
    | Inr wn \<Rightarrow>
        Inr (\<lparr> username = v_username,
               id_g = VStr ''q7ZvsdUF'',
               speed_g = VStr ''blitz'',
               clock_initial = VInt 300000,
               clock_increment = VInt 2000,
               perf_name_g = VStr ''Blitz'',
               variant_name = VStr ''Standard'',
               white = 0,
               black = 1,
               initial_fen = VNone,
               state = VDict [(''moves'', v_moves), (''wtime'', VInt 300000),
                              (''btime'', VInt 300000)],
               is_white = (wn = ascii_lower v_username),
               my_color = (if wn = ascii_lower v_username then ''white'' else ''black''),
               opponent_color = (if wn = ascii_lower v_username then ''black'' else ''white''),
               me = (if wn = ascii_lower v_username then 0 else 1),
               opponent = (if wn = ascii_lower v_username then 1 else 0),
               base_url = ''https://lichess.org/'',
               abort_time = nat v_abort_time,
               terminate_time = nat (362 + v_abort_time),
               disconnect_time = 0 \<rparr>,
             [\<lparr> name = (case map_of wh ''name'' of None \<Rightarrow> VNone | Some v \<Rightarrow> v),
                title = (case map_of wh ''title'' of None \<Rightarrow> VNone | Some v \<Rightarrow> v),
                rating = (case map_of wh ''rating'' of None \<Rightarrow> VNone | Some v \<Rightarrow> v),
                provisional = (case map_of wh ''provisional'' of None \<Rightarrow> VNone | Some v \<Rightarrow> v),
                aiLevel = (case map_of wh ''aiLevel'' of None \<Rightarrow> VNone | Some v \<Rightarrow> v) \<rparr>,
              \<lparr> name = VStr ''bob'', title = VNone, rating = VInt 2000,
                provisional = VNone, aiLevel = VNone \<rparr>]))"
  by (simp add: Game_init_def example_game_payload_def json_get_def Player_init_def
        and_then_def py_or_def alloc_def example_terminate_delay_def example_Timer_def
        Let_def split: sum.splits)


theorem ping_rearms_witness:
  "(case Game_init ascii_lower example_Timer example_terminate_delay []
           (example_game_payload
              [(''clock'', VDict [(''initial'', VInt 300000), (''increment'', VInt 2000)])]
              (VDict [(''name'', VStr ''MyBot'')]) (VStr ''e2e4''))
           ''mybot'' ''https://lichess.org/'' 20 of
      Inl e \<Rightarrow> False
    | Inr (g, h') \<Rightarrow>
        is_abortable g = Inr True
        \<and> abort_time g = 20
        \<and> ping example_Timer g 99 400 30
            = Inr (g\<lparr>abort_time := 99, terminate_time := 400, disconnect_time := 30\<rparr>))
   \<and> (case Game_init ascii_lower example_Timer example_terminate_delay []
           (example_game_payload
              [(''clock'', VDict [(''initial'', VInt 300000), (''increment'', VInt 2000)])]
              (VDict [(''name'', VStr ''MyBot'')]) (VStr ''e2e4 e7e5''))
           ''mybot'' ''https://lichess.org/'' 20 of
      Inl e \<Rightarrow> False
    | Inr (g, h') \<Rightarrow>
        is_abortable g = Inr False
        \<and> abort_time g = 20
        \<and> ping example_Timer g 99 400 30
            = Inr (g\<lparr>abort_time := 20, terminate_time := 400, disconnect_time := 30\<rparr>))"
proof -
  define g1 where "g1 = fst (projr (Game_init ascii_lower example_Timer example_terminate_delay []
           (example_game_payload
              [(''clock'', VDict [(''initial'', VInt 300000), (''increment'', VInt 2000)])]
              (VDict [(''name'', VStr ''MyBot'')]) (VStr ''e2e4''))
           ''mybot'' ''https://lichess.org/'' 20))"
  define g2 where "g2 = fst (projr (Game_init ascii_lower example_Timer example_terminate_delay []
           (example_game_payload
              [(''clock'', VDict [(''initial'', VInt 300000), (''increment'', VInt 2000)])]
              (VDict [(''name'', VStr ''MyBot'')]) (VStr ''e2e4 e7e5''))
           ''mybot'' ''https://lichess.org/'' 20))"
  note ev = example_game py_lower_def py_or_def
  have init: "\<exists>h'. Game_init ascii_lower example_Timer example_terminate_delay []
           (example_game_payload
              [(''clock'', VDict [(''initial'', VInt 300000), (''increment'', VInt 2000)])]
              (VDict [(''name'', VStr ''MyBot'')]) (VStr ''e2e4''))
           ''mybot'' ''https://lichess.org/'' 20 = Inr (g1, h')"
      "\<exists>h'. Game_init ascii_lower example_Timer example_terminate_delay []
           (example_game_payload
              [(''clock'', VDict [(''initial'', VInt 300000), (''increment'', VInt 2000)])]
              (VDict [(''name'', VStr ''MyBot'')]) (VStr ''e2e4 e7e5''))
           ''mybot'' ''https://lichess.org/'' 20 = Inr (g2, h')"
    unfolding g1_def g2_def by (simp_all add: ev)
  have f1: "state g1 = VDict [(''moves'', VStr ''e2e4''), (''wtime'', VInt 300000),
        (''btime'', VInt 300000)]" "abort_time g1 = 20"
    unfolding g1_def by (simp_all add: ev)
  have f2: "state g2 = VDict [(''moves'', VStr ''e2e4 e7e5''), (''wtime'', VInt 300000),
        (''btime'', VInt 300000)]" "abort_time g2 = 20"
    unfolding g2_def by (simp_all add: ev)
  have a1: "is_abortable g1 = Inr True"
    using f1 by (simp add: is_abortable_def and_then_def)
  have a2: "is_abortable g2 = Inr False"
    using f2 by (simp add: is_abortable_def and_then_def)
  have p1: "ping example_Timer g1 99 400 30
      = Inr (g1\<lparr>abort_time := 99, terminate_time := 400, disconnect_time := 30\<rparr>)"
    using ping_rearms [OF a1, of example_Timer 99 400 30]
    by (simp add: example_Timer_def)
  have p2: "ping example_Timer g2 99 400 30
      = Inr (g2\<lparr>abort_time := 20, terminate_time := 400, disconnect_time := 30\<rparr>)"
    using ping_rearms [OF a2, of example_Timer 99 400 30] f2
    by (simp add: example_Timer_def)
  show ?thesis
    using init f1 f2 a1 a2 p1 p2 by auto
qed


theorem Game_init_sides_witness:
  "(case Game_init ascii_lower example_Timer example_terminate_delay []
           (example_game_payload
              [(''clock'', VDict [(''initial'', VInt 300000), (''increment'', VInt 2000)])]
              (VDict [(''name'', VStr ''MyBot'')]) (VStr ''e2e4''))
           ''mybot'' ''https://lichess.org/'' 20 of
      Inl e \<Rightarrow> False
    | Inr (g, h') \<Rightarrow>
        name (h' ! white g) = VStr ''MyBot'' \<and> name (h' ! black g) = VStr ''bob''
        \<and> is_white g \<and> my_color g = ''white'' \<and> opponent_color g = ''black''
        \<and> me g = white g \<and> opponent g = black g \<and> opponent g \<noteq> white g)
   \<and> (case Game_init ascii_lower example_Timer example_terminate_delay []
           (example_game_payload
              [(''clock'', VDict [(''initial'', VInt 300000), (''increment'', VInt 2000)])]
              (VDict [(''rating'', VInt 1500)]) (VStr ''e2e4''))
           ''mybot'' ''https://lichess.org/'' 20 of
      Inl e \<Rightarrow> False
    | Inr (g, h') \<Rightarrow>
        name (h' ! white g) = VNone
        \<and> \<not> is_white g \<and> my_color g = ''black'' \<and> opponent_color g = ''white''
        \<and> me g = black g \<and> opponent g = white g \<and> me g \<noteq> white g)"
proof -
  let ?init = "\<lambda>wh. Game_init ascii_lower example_Timer example_terminate_delay []
           (example_game_payload
              [(''clock'', VDict [(''initial'', VInt 300000), (''increment'', VInt 2000)])]
              wh (VStr ''e2e4''))
           ''mybot'' ''https://lichess.org/'' 20"
  note ev = example_game py_lower_def py_or_def ascii_lower_def
  define r1 where "r1 = projr (?init (VDict [(''name'', VStr ''MyBot'')]))"
  define r2 where "r2 = projr (?init (VDict [(''rating'', VInt 1500)]))"
  have init1: "?init (VDict [(''name'', VStr ''MyBot'')]) = Inr (fst r1, snd r1)"
    unfolding r1_def by (simp add: ev)
  have init2: "?init (VDict [(''rating'', VInt 1500)]) = Inr (fst r2, snd r2)"
    unfolding r2_def by (simp add: ev)
  have n1: "name (snd r1 ! white (fst r1)) = VStr ''MyBot''"
      "name (snd r1 ! black (fst r1)) = VStr ''bob''"
    unfolding r1_def by (simp_all add: ev)
  have n2: "name (snd r2 ! white (fst r2)) = VNone"
    unfolding r2_def by (simp add: ev)
  have lower: "ascii_lower ''MyBot'' = ascii_lower ''mybot''" "ascii_lower [] \<noteq> ascii_lower ''mybot''"
    by (simp_all add: ascii_lower_def)
  have s1: "is_white (fst r1) \<and> my_color (fst r1) = ''white''
      \<and> opponent_color (fst r1) = ''black'' \<and> me (fst r1) = white (fst r1)
      \<and> opponent (fst r1) = black (fst r1) \<and> opponent (fst r1) \<noteq> white (fst r1)"
    using Game_init_sides [OF init1] n1 lower by (auto simp add: py_or_def)
  have s2: "\<not> is_white (fst r2) \<and> my_color (fst r2) = ''black''
      \<and> opponent_color (fst r2) = ''white'' \<and> me (fst r2) = black (fst r2)
      \<and> opponent (fst r2) = white (fst r2) \<and> me (fst r2) \<noteq> white (fst r2)"
    using Game_init_sides [OF init2] n2 lower by (auto simp add: py_or_def)
  show ?thesis
    using init1 init2 n1 n2 s1 s2 by (simp add: case_prod_beta)
qed

end
